theory Spec2Isabelle
  imports Complex_Main "HOL-Library.Sublist" "HOL-Library.Log_Nat"
begin

chapter \<open>The model\<close>

section \<open>JavaScript numbers\<close>

text \<open>
  A JavaScript number is an IEEE 754 binary64 value. All numbers that occur in the code
  below are finite and far from the overflow and underflow thresholds, so a number is
  modelled by the rational it denotes, and an arithmetic operation by the exact operation
  followed by rounding to the nearest rational with a 53-bit significand, ties to the even
  significand.
\<close>

text \<open>Nearest integer, ties to even.\<close>

definition rne :: "rat \<Rightarrow> int" where
  "rne x = (let f = \<lfloor>x\<rfloor>; d = x - of_int f
            in if d < 1 / 2 then f else if 1 / 2 < d then f + 1 else if even f then f else f + 1)"

text \<open>The binary exponent of a positive number: \<open>2 powi expo x \<le> x < 2 powi (expo x + 1)\<close>.\<close>

definition expo :: "rat \<Rightarrow> int" where
  "expo x = (if 1 \<le> x then bitlen \<lfloor>x\<rfloor> - 1 else - bitlen (\<lceil>1 / x\<rceil> - 1))"

text \<open>Rounding to binary64: the significand is scaled into \<open>[2^52, 2^53)\<close> and rounded.\<close>

definition fl :: "rat \<Rightarrow> rat" where
  "fl x = (if x = 0 then 0
           else let k = 52 - expo \<bar>x\<bar>
                in sgn x * (of_int (rne (\<bar>x\<bar> * 2 powi k)) / 2 powi k))"

definition js_add :: "rat \<Rightarrow> rat \<Rightarrow> rat" where
  "js_add x y = fl (x + y)"

definition js_sub :: "rat \<Rightarrow> rat \<Rightarrow> rat" where
  "js_sub x y = fl (x - y)"

definition js_mul :: "rat \<Rightarrow> rat \<Rightarrow> rat" where
  "js_mul x y = fl (x * y)"

text \<open>Division; every divisor in the code below is guarded or is a positive length.\<close>

definition js_div :: "rat \<Rightarrow> rat \<Rightarrow> rat" where
  "js_div x y = fl (x / y)"

text \<open>The literals \<open>0.4\<close>, \<open>0.3\<close> and \<open>0.5\<close> as the parser reads them.\<close>

definition js_0_4 :: rat where
  "js_0_4 = fl (4 / 10)"

definition js_0_3 :: rat where
  "js_0_3 = fl (3 / 10)"

definition js_0_5 :: rat where
  "js_0_5 = fl (1 / 2)"

text \<open>\<open>Math.round\<close> rounds to the nearest integer, ties upwards; \<open>Math.ceil\<close>.\<close>

definition js_round :: "rat \<Rightarrow> int" where
  "js_round x = \<lfloor>x + 1 / 2\<rfloor>"

definition js_ceil :: "rat \<Rightarrow> int" where
  "js_ceil x = \<lceil>x\<rceil>"

section \<open>JavaScript strings and regular expressions\<close>

text \<open>
  A string is a list of code units; a code unit is an Isabelle character, which covers the
  code units below 256. \<open>String.prototype.includes\<close>: the pattern occurs as a contiguous
  substring.
\<close>

definition js_includes :: "string \<Rightarrow> string \<Rightarrow> bool" where
  "js_includes code pat = sublist pat code"

text \<open>\<open>code.split('\n')\<close>: the pieces between line feeds; never empty.\<close>

fun split_lines :: "string \<Rightarrow> string list" where
  "split_lines [] = [[]]"
| "split_lines (c # cs) =
     (if c = CHR 0x0A then [] # split_lines cs
      else (c # hd (split_lines cs)) # tl (split_lines cs))"

subsection \<open>Character classes\<close>

text \<open>\<open>\w\<close> is \<open>[A-Za-z0-9_]\<close>; \<open>\s\<close> is white space and line terminators; \<open>.\<close> is
  anything but a line terminator.\<close>

definition is_word_char :: "char \<Rightarrow> bool" where
  "is_word_char c = (c \<in> set ''abcdefghijklmnopqrstuvwxyzABCDEFGHIJKLMNOPQRSTUVWXYZ0123456789_'')"

definition is_space_char :: "char \<Rightarrow> bool" where
  "is_space_char c =
     (c \<in> set [CHR 0x09, CHR 0x0A, CHR 0x0B, CHR 0x0C, CHR 0x0D, CHR '' '', CHR 0xA0])"

definition is_line_terminator :: "char \<Rightarrow> bool" where
  "is_line_terminator c = (c \<in> set [CHR 0x0A, CHR 0x0D])"

text \<open>A literal character, \<open>.\<close>, \<open>\w\<close>, \<open>\s\<close>, and the negated class \<open>[^c]\<close>.\<close>

datatype cclass = Lit char | Dot | Word | Space | NotLit char

fun cmatch :: "cclass \<Rightarrow> char \<Rightarrow> bool" where
  "cmatch (Lit a) c = (c = a)"
| "cmatch Dot c = (\<not> is_line_terminator c)"
| "cmatch Word c = is_word_char c"
| "cmatch Space c = is_space_char c"
| "cmatch (NotLit a) c = (c \<noteq> a)"

subsection \<open>Patterns and the backtracking matcher\<close>

text \<open>
  The patterns of the code use one-character atoms, the assertion \<open>\b\<close>, concatenation,
  alternation and greedy repetition; groups only group.
\<close>

datatype regex = Sym cclass | Eps | Bnd | Seq regex regex | Alt regex regex | Star regex

definition word_at :: "string \<Rightarrow> nat \<Rightarrow> bool" where
  "word_at s i = (i < length s \<and> is_word_char (s ! i))"

definition word_before :: "string \<Rightarrow> nat \<Rightarrow> bool" where
  "word_before s i = (0 < i \<and> word_at s (i - 1))"

text \<open>
  \<open>ends r s i\<close> lists the end positions of the matches of \<open>r\<close> that start at position
  \<open>i\<close> of \<open>s\<close>, in the order in which the backtracking matcher of the language tries them:
  the left alternative first, more repetitions first, and a repetition never iterates on an
  empty match. The head of the list is the match the matcher reports.
\<close>

function ends :: "regex \<Rightarrow> string \<Rightarrow> nat \<Rightarrow> nat list" where
  "ends (Sym c) s i = (if i < length s \<and> cmatch c (s ! i) then [Suc i] else [])"
| "ends Eps s i = [i]"
| "ends Bnd s i = (if word_before s i \<noteq> word_at s i then [i] else [])"
| "ends (Seq a b) s i = concat (map (ends b s) (ends a s i))"
| "ends (Alt a b) s i = ends a s i @ ends b s i"
| "ends (Star a) s i =
     concat (map (\<lambda>j. if i < j \<and> j \<le> length s then ends (Star a) s j else []) (ends a s i)) @ [i]"
  by pat_completeness auto
termination
  by (relation "measures [\<lambda>(r, s, i). size r, \<lambda>(r, s, i). length s - i]") auto

text \<open>
  \<open>s.match(r)\<close> for a pattern with the \<open>g\<close> flag: the matcher is tried at \<open>lastIndex\<close>,
  then at each later position up to the end of the string; after a match \<open>lastIndex\<close> is
  the match's end, advanced by one when the match is empty. The result is the list of all
  matches (\<open>null\<close> when there is none, which the callers count as 0).
\<close>

function match_all :: "regex \<Rightarrow> string \<Rightarrow> nat \<Rightarrow> (nat \<times> nat) list" where
  "match_all r s i =
     (if length s < i then []
      else case ends r s i of
             [] \<Rightarrow> match_all r s (Suc i)
           | e # _ \<Rightarrow> (i, e) # match_all r s (if i < e then e else Suc i))"
  by pat_completeness auto
termination
  by (relation "measure (\<lambda>(r, s, i). Suc (length s) - i)") auto

declare match_all.simps [simp del]

definition match_count :: "regex \<Rightarrow> string \<Rightarrow> nat" where
  "match_count r s = length (match_all r s 0)"

text \<open>
  Pattern notation: a literal string, \<open>r+\<close>, \<open>r{n,}\<close>, a sequence and a choice of
  patterns.
\<close>

fun str :: "string \<Rightarrow> regex" where
  "str [] = Eps"
| "str (c # cs) = Seq (Sym (Lit c)) (str cs)"

definition Many1 :: "regex \<Rightarrow> regex" where
  "Many1 r = Seq r (Star r)"

fun AtLeast :: "nat \<Rightarrow> regex \<Rightarrow> regex" where
  "AtLeast 0 r = Star r"
| "AtLeast (Suc n) r = Seq r (AtLeast n r)"

fun seqs :: "regex list \<Rightarrow> regex" where
  "seqs [] = Eps"
| "seqs [r] = r"
| "seqs (r # rs) = Seq r (seqs rs)"

fun alts :: "regex list \<Rightarrow> regex" where
  "alts [] = Eps"
| "alts [r] = r"
| "alts (r # rs) = Alt r (alts rs)"

text \<open>\<open>new RegExp('\\b' + keyword + '\\b', 'g')\<close>.\<close>

definition keyword_regex :: "string \<Rightarrow> regex" where
  "keyword_regex keyword = Seq Bnd (Seq (str keyword) Bnd)"

subsection \<open>Whole-word occurrences\<close>

text \<open>
  The keyword stands at position \<open>i\<close> as a whole word: its characters are there, and
  neither the character before nor the character after is a word character.
\<close>

definition whole_word_at :: "string \<Rightarrow> string \<Rightarrow> nat \<Rightarrow> bool" where
  "whole_word_at keyword s i =
     (take (length keyword) (drop i s) = keyword \<and> \<not> word_before s i
      \<and> \<not> word_at s (i + length keyword))"

definition whole_word_occurrences :: "string \<Rightarrow> string \<Rightarrow> nat" where
  "whole_word_occurrences keyword s =
     length (filter (whole_word_at keyword s) [0..<Suc (length s)])"

section \<open>Quality scoring (src/unnamed/part_001, the module services/analysisService)\<close>

subsection \<open>Data\<close>

text \<open>
  The result of the quality scorer: \<open>{score, metrics: {linesOfCode, complexity, duplication,
  readability}}\<close>. The scorer's fallback carries the empty object \<open>{}\<close> as metrics, which
  is \<open>None\<close> here.
\<close>

record quality_metrics =
  linesOfCode :: nat
  complexity :: nat
  duplication :: int
  readability :: int

record quality_result =
  score :: int
  metrics :: "quality_metrics option"

text \<open>
  The argument of the scorer is whatever the caller passes. Only a string has a \<open>split\<close>
  method; on any other value of this type the call \<open>code.split\<close> throws a \<open>TypeError\<close>.
\<close>

datatype js_value = JStr string | JNum rat | JBool bool | JNull | JUndefined

datatype js_error = TypeError

text \<open>\<open>try { body } catch (error) { handler }\<close>.\<close>

definition try_catch :: "js_error + 'a \<Rightarrow> (js_error \<Rightarrow> js_error + 'a) \<Rightarrow> js_error + 'a" where
  "try_catch body handler = (case body of Inr x \<Rightarrow> Inr x | Inl e \<Rightarrow> handler e)"

subsection \<open>The metrics\<close>

definition controlFlowKeywords :: "string list" where
  "controlFlowKeywords = [''if'', ''for'', ''while'', ''case'', ''catch'']"

text \<open>
  \<open>calculateComplexity(code)\<close>: starting from 1, each keyword adds the number of matches
  of its pattern; the result is ten times that, capped at 100.
\<close>

definition calculateComplexity :: "string \<Rightarrow> nat" where
  "calculateComplexity code =
     min ((fold (\<lambda>keyword c. c + match_count (keyword_regex keyword) code)
             controlFlowKeywords 1) * 10) 100"

text \<open>
  \<open>calculateDuplication(code)\<close>: \<open>Math.round(((lines.length - uniqueLines.size) /
  lines.length) * 100)\<close>. The difference of the two lengths is an exact integer.
\<close>

definition calculateDuplication :: "string \<Rightarrow> int" where
  "calculateDuplication code =
     (let lines = split_lines code;
          uniqueLines = remdups lines;
          duplicationRate =
            js_mul (js_div (of_nat (length lines - length uniqueLines))
                           (of_nat (length lines))) 100
      in js_round duplicationRate)"

text \<open>\<open>calculateReadability(code)\<close>.\<close>

definition calculateReadability :: "string \<Rightarrow> int" where
  "calculateReadability code =
     (let lines = split_lines code;
          avgLineLength = js_div (of_nat (length code)) (of_nat (length lines));
          readabilityScore = js_sub 100 (min avgLineLength 100);
          readabilityScore = (if avgLineLength < 10 then js_sub readabilityScore 20
                              else readabilityScore)
      in max (js_round readabilityScore) 0)"

subsection \<open>getCodeQualityScore\<close>



text \<open>
  The body of the \<open>try\<close> block, with the three metric helpers as parameters, so that a
  helper that throws is a value of the model: the block stops at the first exception.
\<close>

definition quality_body ::
  "(string \<Rightarrow> js_error + nat) \<Rightarrow> (string \<Rightarrow> js_error + int) \<Rightarrow> (string \<Rightarrow> js_error + int)
   \<Rightarrow> js_value \<Rightarrow> js_error + quality_result" where
  "quality_body calcComplexity calcDuplication calcReadability v =
     (case v of
        JStr code \<Rightarrow>
          (let loc = length (split_lines code)
           in case calcComplexity code of Inl e \<Rightarrow> Inl e | Inr c \<Rightarrow>
             (case calcDuplication code of Inl e \<Rightarrow> Inl e | Inr d \<Rightarrow>
               (case calcReadability code of Inl e \<Rightarrow> Inl e | Inr r \<Rightarrow>
                  Inr \<lparr>score = js_round (js_add (js_add (js_mul (of_int r) js_0_4)
                                                        (js_mul (of_nat c) js_0_3))
                                                (js_mul (js_sub 100 (of_int d)) js_0_3)),
                       metrics = Some \<lparr>linesOfCode = loc, complexity = c, duplication = d,
                                       readability = r\<rparr>\<rparr>)))
      | _ \<Rightarrow> Inl TypeError)"

text \<open>The value returned by the \<open>catch\<close> block: \<open>{score: 0, metrics: {}}\<close>.\<close>

definition fallback_result :: quality_result where
  "fallback_result = \<lparr>score = 0, metrics = None\<rparr>"

definition getCodeQualityScore_with ::
  "(string \<Rightarrow> js_error + nat) \<Rightarrow> (string \<Rightarrow> js_error + int) \<Rightarrow> (string \<Rightarrow> js_error + int)
   \<Rightarrow> js_value \<Rightarrow> js_error + quality_result" where
  "getCodeQualityScore_with calcComplexity calcDuplication calcReadability v =
     try_catch (quality_body calcComplexity calcDuplication calcReadability v)
       (\<lambda>error. Inr fallback_result)"

text \<open>\<open>getCodeQualityScore(code)\<close>, with the helpers of the module, none of which throws.\<close>

definition getCodeQualityScore :: "js_value \<Rightarrow> js_error + quality_result" where
  "getCodeQualityScore v =
     getCodeQualityScore_with (\<lambda>code. Inr (calculateComplexity code))
       (\<lambda>code. Inr (calculateDuplication code)) (\<lambda>code. Inr (calculateReadability code)) v"

text \<open>What a caller reads off the returned object.\<close>

definition result_score :: "js_error + quality_result \<Rightarrow> int option" where
  "result_score res = (case res of Inr q \<Rightarrow> Some (score q) | Inl e \<Rightarrow> None)"

section \<open>Security and dependency scan (src/unnamed/part_001)\<close>

text \<open>
  An issue as the scanners and the AI review produce it: \<open>{type, description, severity,
  suggestion}\<close>. The severity is a string; the scanners write \<open>High\<close> or \<open>Medium\<close>, the AI
  review whatever the model answered.
\<close>

record issue =
  itype :: string
  description :: string
  severity :: string
  suggestion :: string

definition xss_issue :: issue where
  "xss_issue = \<lparr>itype = ''XSS Vulnerability'',
     description = ''Potential cross-site scripting vulnerability detected'',
     severity = ''High'',
     suggestion = ''Use safer alternatives like textContent or sanitize user inputs''\<rparr>"

definition sql_issue :: issue where
  "sql_issue = \<lparr>itype = ''SQL Injection'',
     description = ''Potential SQL injection vulnerability detected'',
     severity = ''High'',
     suggestion = ''Use parameterized queries or ORM methods''\<rparr>"

definition redirect_issue :: issue where
  "redirect_issue = \<lparr>itype = ''Open Redirect'',
     description = ''Potential open redirect vulnerability detected'',
     severity = ''Medium'',
     suggestion = ''Validate redirect URLs against whitelist''\<rparr>"

definition buffer_issue :: issue where
  "buffer_issue = \<lparr>itype = ''Deprecated API'',
     description = ''Buffer() constructor is deprecated and unsafe'',
     severity = ''High'',
     suggestion = ''Use Buffer.alloc() or Buffer.from() instead''\<rparr>"

text \<open>
  \<open>getSecurityIssues(code)\<close>: three \<open>if\<close> statements in sequence, each pushing one issue
  onto the same array.
\<close>

definition getSecurityIssues :: "string \<Rightarrow> issue list" where
  "getSecurityIssues code =
     (let issues0 = [];
          issues1 = (if js_includes code ''.innerHTML'' \<or> js_includes code ''eval(''
                     then issues0 @ [xss_issue] else issues0);
          issues2 = (if js_includes code ''+'' \<and> (js_includes code ''SELECT'' \<or> js_includes code ''INSERT'')
                     then issues1 @ [sql_issue] else issues1);
          issues3 = (if js_includes code ''window.location'' \<or> js_includes code ''redirect(''
                     then issues2 @ [redirect_issue] else issues2)
      in issues3)"

text \<open>\<open>checkDependencies(code)\<close>.\<close>

definition checkDependencies :: "string \<Rightarrow> issue list" where
  "checkDependencies code =
     (let vulnerabilities = []
      in if js_includes code ''new Buffer('' then vulnerabilities @ [buffer_issue] else vulnerabilities)"

section \<open>Report formatting (src/unnamed/part_004, the module utils/formatter)\<close>

subsection \<open>Data\<close>

text \<open>
  The AI review as parsed from the model's answer: each of the three lists may be missing
  (the raw-text fallback \<open>{rawResponse: text}\<close> has none of them).
\<close>

record ai_review =
  bugs :: "issue list option"
  performance :: "issue list option"
  refactor :: "issue list option"

record review_data =
  qualityScore :: quality_result
  securityIssues :: "issue list"
  dependencyIssues :: "issue list"
  aiReview :: ai_review

record tagged_issue = issue +
  severityTag :: string

text \<open>What \<open>structureCodeReviewOutput\<close> returns.\<close>

record analysis_summary =
  a_qualityScore :: int
  a_totalIssues :: nat

record ai_analysis =
  a_bugs :: "tagged_issue list"
  a_performance :: "tagged_issue list"
  a_refactor :: "tagged_issue list"

record analysis =
  a_summary :: analysis_summary
  qualityMetrics :: "quality_metrics option"
  security :: "tagged_issue list"
  dependencies :: "tagged_issue list"
  aiAnalysis :: ai_analysis

text \<open>What \<open>createStructuredOutput\<close> returns: the report.\<close>

record severity_breakdown =
  high :: nat
  medium :: nat
  low :: nat

record report_summary =
  totalIssues :: nat
  r_qualityScore :: int
  severityBreakdown :: severity_breakdown

record ai_details =
  d_bugs :: "tagged_issue list"
  d_performance :: "tagged_issue list"
  d_refactor :: "tagged_issue list"

record report_details =
  quality :: "quality_metrics option"
  d_security :: "tagged_issue list"
  d_dependencies :: "tagged_issue list"
  ai :: ai_details

record report =
  rid :: string
  rtimestamp :: string
  summary :: report_summary
  details :: report_details

subsection \<open>Functions\<close>

text \<open>\<open>formatIssuesWithSeverity\<close>: every issue gains \<open>severityTag: `[${issue.severity}]`\<close>.\<close>

definition formatIssuesWithSeverity :: "issue list \<Rightarrow> tagged_issue list" where
  "formatIssuesWithSeverity issues =
     map (\<lambda>i. \<lparr>itype = itype i, description = description i, severity = severity i,
                suggestion = suggestion i, severityTag = ''['' @ severity i @ '']''\<rparr>) issues"

text \<open>
  \<open>structureCodeReviewOutput(reviewData)\<close>. The total adds the lengths of the security list,
  the dependency list and \<open>aiReview.bugs\<close> (0 when that is missing); the three AI lists
  default to \<open>[]\<close> when missing.
\<close>

definition structureCodeReviewOutput :: "review_data \<Rightarrow> analysis" where
  "structureCodeReviewOutput reviewData =
     \<lparr>a_summary =
        \<lparr>a_qualityScore = score (qualityScore reviewData),
         a_totalIssues = length (securityIssues reviewData) + length (dependencyIssues reviewData)
           + (case bugs (aiReview reviewData) of Some bs \<Rightarrow> length bs | None \<Rightarrow> 0)\<rparr>,
      qualityMetrics = metrics (qualityScore reviewData),
      security = formatIssuesWithSeverity (securityIssues reviewData),
      dependencies = formatIssuesWithSeverity (dependencyIssues reviewData),
      aiAnalysis =
        \<lparr>a_bugs = (case bugs (aiReview reviewData) of
                      Some bs \<Rightarrow> formatIssuesWithSeverity bs | None \<Rightarrow> []),
         a_performance = (case performance (aiReview reviewData) of
                      Some ps \<Rightarrow> formatIssuesWithSeverity ps | None \<Rightarrow> []),
         a_refactor = (case refactor (aiReview reviewData) of
                      Some rs \<Rightarrow> formatIssuesWithSeverity rs | None \<Rightarrow> [])\<rparr>\<rparr>"

text \<open>\<open>countIssuesBySeverity(analysis, severity)\<close>: five filters, over all five lists.\<close>

definition countIssuesBySeverity :: "analysis \<Rightarrow> string \<Rightarrow> nat" where
  "countIssuesBySeverity an sev =
     (let count0 = 0;
          count1 = count0 + length (filter (\<lambda>i. severity i = sev) (security an));
          count2 = count1 + length (filter (\<lambda>i. severity i = sev) (dependencies an));
          count3 = count2 + length (filter (\<lambda>i. severity i = sev) (a_bugs (aiAnalysis an)));
          count4 = count3 + length (filter (\<lambda>i. severity i = sev) (a_performance (aiAnalysis an)));
          count5 = count4 + length (filter (\<lambda>i. severity i = sev) (a_refactor (aiAnalysis an)))
      in count5)"

text \<open>\<open>list.map(issue => ({...issue, severity: issue.severity, type: kind}))\<close>.\<close>

definition retag :: "string \<Rightarrow> tagged_issue list \<Rightarrow> tagged_issue list" where
  "retag kind issues = map (\<lambda>i. i\<lparr>itype := kind\<rparr>) issues"

text \<open>
  \<open>createStructuredOutput(analysis)\<close>. The id \<open>`review_${Date.now()}`\<close> and the timestamp
  \<open>new Date().toISOString()\<close> come from the clock and are inputs here. The summary's total
  is copied from \<open>analysis.summary.totalIssues\<close>; every list is re-tagged with its
  partition's \<open>type\<close>.
\<close>

definition createStructuredOutput :: "string \<Rightarrow> string \<Rightarrow> analysis \<Rightarrow> report" where
  "createStructuredOutput new_id now an =
     \<lparr>rid = new_id,
      rtimestamp = now,
      summary =
        \<lparr>totalIssues = a_totalIssues (a_summary an),
         r_qualityScore = a_qualityScore (a_summary an),
         severityBreakdown =
           \<lparr>high = countIssuesBySeverity an ''High'',
            medium = countIssuesBySeverity an ''Medium'',
            low = countIssuesBySeverity an ''Low''\<rparr>\<rparr>,
      details =
        \<lparr>quality = qualityMetrics an,
         d_security = retag ''Security'' (security an),
         d_dependencies = retag ''Dependency'' (dependencies an),
         ai = \<lparr>d_bugs = retag ''Bug'' (a_bugs (aiAnalysis an)),
               d_performance = retag ''Performance'' (a_performance (aiAnalysis an)),
               d_refactor = retag ''Refactor'' (a_refactor (aiAnalysis an))\<rparr>\<rparr>\<rparr>"

text \<open>
  The report of one analysis result: the result is structured and the structure is turned
  into the report. (\<open>createStructuredOutput\<close> reads \<open>analysis.summary\<close>,
  \<open>analysis.security\<close> and \<open>analysis.aiAnalysis\<close>, which only the value returned by
  \<open>structureCodeReviewOutput\<close> has.)
\<close>

definition report_of :: "string \<Rightarrow> string \<Rightarrow> review_data \<Rightarrow> report" where
  "report_of new_id now reviewData =
     createStructuredOutput new_id now (structureCodeReviewOutput reviewData)"

text \<open>The sum of the lengths of all detail partitions of a report.\<close>

definition partition_total :: "report \<Rightarrow> nat" where
  "partition_total r =
     length (d_security (details r)) + length (d_dependencies (details r))
     + length (d_bugs (ai (details r))) + length (d_performance (ai (details r)))
     + length (d_refactor (ai (details r)))"

definition breakdown_total :: "report \<Rightarrow> nat" where
  "breakdown_total r =
     high (severityBreakdown (summary r)) + medium (severityBreakdown (summary r))
     + low (severityBreakdown (summary r))"

section \<open>Performance estimate (src/services/codeStyleEnforcement.js, the performance benchmark module)\<close>

text \<open>The profile of one code variant, the differences, and the comparison.\<close>

record perf_metrics =
  loopComplexity :: nat
  functionCalls :: nat
  nestedDepth :: nat
  memoryUsage :: nat
  complexityScore :: rat

record improvements_rec =
  loopReduction :: int
  callReduction :: int
  depthReduction :: int
  memoryReduction :: int

record perf_comparison =
  before :: perf_metrics
  after :: perf_metrics
  improvements :: improvements_rec
  estimatedPerformanceGain :: rat

text \<open>
  The four patterns of \<open>analyzeCodeForPerformance\<close> and \<open>estimateMemoryUsage\<close>:
  \<open>/\b(for|while)\s*\(/g\<close>, \<open>/\w+\s*\(/g\<close>, \<open>/\[[^\]]*\]/g\<close> and \<open>/\{[^\}]*\}/g\<close>.
\<close>

definition loop_regex :: regex where
  "loop_regex = seqs [Bnd, Alt (str ''for'') (str ''while''), Star (Sym Space), Sym (Lit (CHR ''(''))]"

definition call_regex :: regex where
  "call_regex = seqs [Many1 (Sym Word), Star (Sym Space), Sym (Lit (CHR ''(''))]"

definition array_regex :: regex where
  "array_regex = seqs [Sym (Lit (CHR ''['')), Star (Sym (NotLit (CHR '']''))), Sym (Lit (CHR '']''))]"

definition object_regex :: regex where
  "object_regex = seqs [Sym (Lit (CHR ''{'')), Star (Sym (NotLit (CHR ''}''))), Sym (Lit (CHR ''}''))]"

text \<open>
  \<open>estimateNestedDepth\<close>: one pass over the characters; an opening brace deepens, a closing
  brace lifts, never below 0.
\<close>

fun depth_scan :: "string \<Rightarrow> nat \<Rightarrow> nat \<Rightarrow> nat" where
  "depth_scan [] currentDepth maxDepth = maxDepth"
| "depth_scan (c # cs) currentDepth maxDepth =
     (if c = CHR ''{'' then depth_scan cs (currentDepth + 1) (max maxDepth (currentDepth + 1))
      else if c = CHR ''}'' then depth_scan cs (currentDepth - 1) maxDepth
      else depth_scan cs currentDepth maxDepth)"

definition estimateNestedDepth :: "string \<Rightarrow> nat" where
  "estimateNestedDepth code = depth_scan code 0 0"

definition estimateMemoryUsage :: "string \<Rightarrow> nat" where
  "estimateMemoryUsage code =
     (let arrayCount = match_count array_regex code;
          objectCount = match_count object_regex code
      in arrayCount * 10 + objectCount * 15)"

text \<open>
  \<open>calculateComplexityScore\<close>: \<open>loopComplexity * 10 + functionCalls * 2 + nestedDepth * 15
  + memoryUsage * 0.5\<close>.
\<close>

definition calculateComplexityScore :: "nat \<Rightarrow> nat \<Rightarrow> nat \<Rightarrow> nat \<Rightarrow> rat" where
  "calculateComplexityScore loops calls depth memory =
     js_add (js_add (js_add (js_mul (of_nat loops) 10) (js_mul (of_nat calls) 2))
                    (js_mul (of_nat depth) 15))
            (js_mul (of_nat memory) js_0_5)"

definition analyzeCodeForPerformance :: "string \<Rightarrow> perf_metrics" where
  "analyzeCodeForPerformance code =
     (let loops = match_count loop_regex code;
          calls = match_count call_regex code;
          depth = estimateNestedDepth code;
          memory = estimateMemoryUsage code
      in \<lparr>loopComplexity = loops, functionCalls = calls, nestedDepth = depth,
          memoryUsage = memory,
          complexityScore = calculateComplexityScore loops calls depth memory\<rparr>)"

definition calculateImprovements :: "perf_metrics \<Rightarrow> perf_metrics \<Rightarrow> improvements_rec" where
  "calculateImprovements original optimized =
     \<lparr>loopReduction = int (loopComplexity original) - int (loopComplexity optimized),
      callReduction = int (functionCalls original) - int (functionCalls optimized),
      depthReduction = int (nestedDepth original) - int (nestedDepth optimized),
      memoryReduction = int (memoryUsage original) - int (memoryUsage optimized)\<rparr>"

text \<open>
  \<open>calculatePerformanceGain\<close>: 0 when the original score is 0; otherwise the relative
  reduction in percent, rounded to two decimals and not below 0.
\<close>

definition calculatePerformanceGain :: "perf_metrics \<Rightarrow> perf_metrics \<Rightarrow> rat" where
  "calculatePerformanceGain original optimized =
     (if complexityScore original = 0 then 0
      else let gain = js_mul (js_div (js_sub (complexityScore original) (complexityScore optimized))
                                     (complexityScore original)) 100
           in max 0 (js_div (of_int (js_round (js_mul gain 100))) 100))"

text \<open>\<open>estimatePerformanceImpact(originalCode, optimizedCode)\<close>; the language is not used.\<close>

definition estimatePerformanceImpact :: "string \<Rightarrow> string \<Rightarrow> perf_comparison" where
  "estimatePerformanceImpact originalCode optimizedCode =
     (let originalMetrics = analyzeCodeForPerformance originalCode;
          optimizedMetrics = analyzeCodeForPerformance optimizedCode
      in \<lparr>before = originalMetrics, after = optimizedMetrics,
          improvements = calculateImprovements originalMetrics optimizedMetrics,
          estimatedPerformanceGain = calculatePerformanceGain originalMetrics optimizedMetrics\<rparr>)"

section \<open>Language patterns and style rules (src/services/multiLanguageAnalyzer.js, src/services/codeStyleEnforcement.js)\<close>

text \<open>
  The issue of the language analyzer, \<open>{type, description, count, severity}\<close>, and the
  issue of the style checker, \<open>{type: 'Custom', rule, description, severity, count}\<close>.
\<close>

record language_issue =
  l_type :: string
  l_description :: string
  l_count :: nat
  l_severity :: string

record style_issue =
  s_type :: string
  s_rule :: string
  s_description :: string
  s_severity :: string
  s_count :: nat

text \<open>
  Both catalogs are object literals, read with \<open>catalog[language]\<close>. Besides its own keys
  an object literal answers to the property names it inherits from \<open>Object.prototype\<close>;
  the inherited values are truthy and are neither a rule set nor an array.
\<close>

definition object_prototype_keys :: "string list" where
  "object_prototype_keys =
     [''constructor'', ''__defineGetter__'', ''__defineSetter__'', ''hasOwnProperty'',
      ''__lookupGetter__'', ''__lookupSetter__'', ''isPrototypeOf'', ''propertyIsEnumerable'',
      ''toString'', ''valueOf'', ''__proto__'', ''toLocaleString'']"

text \<open>The patterns of \<open>languageRules\<close>, in the order of the source.\<close>

definition ch :: "char \<Rightarrow> regex" where
  "ch c = Sym (Lit c)"

definition languageRules :: "(string \<times> (string \<times> regex) list) list" where
  "languageRules =
     [(''javascript'',
        [(''asyncAwait'',
            Alt (seqs [Bnd, str ''async'', Many1 (Sym Space), str ''function'', Bnd])
                (seqs [Bnd, str ''async'', Many1 (Sym Space), ch (CHR ''(''),
                       Star (Sym (NotLit (CHR '')''))), ch (CHR '')''), Star (Sym Space), str ''=>''])),
         (''promiseChaining'', Alt (str ''.then('') (str ''.catch('')),
         (''varUsage'', seqs [Bnd, str ''var'', Bnd]),
         (''consoleLog'', seqs [Bnd, str ''console.log'', Bnd])]),
      (''typescript'',
        [(''anyType'', seqs [ch (CHR '':''), Star (Sym Space), str ''any'', Bnd]),
         (''explicitAny'', str ''<any>''),
         (''nonNullAssertion'', str ''!.''),
         (''tsIgnore'', str ''@ts-ignore'')]),
      (''python'',
        [(''globalUsage'', seqs [Bnd, str ''global'', Bnd]),
         (''execUsage'', seqs [Bnd, str ''exec'', Bnd]),
         (''evalUsage'', seqs [Bnd, str ''eval'', Bnd]),
         (''mutableDefault'',
            seqs [str ''def'', Many1 (Sym Space), Many1 (Sym Word), ch (CHR ''(''),
                  Star (Sym (NotLit (CHR '')''))), ch (CHR ''=''), Star (Sym Space), ch (CHR ''[''),
                  Star (Sym Dot), ch (CHR '']''), Star (Sym Dot), ch (CHR '')'')])]),
      (''java'',
        [(''systemOut'', str ''System.out.print''),
         (''rawTypes'', seqs [str ''List<'', Many1 (Sym Word), ch (CHR ''>'')]),
         (''stringConcat'', seqs [ch (CHR ''+''), Star (Sym Space), ch (CHR 0x22)]),
         (''nullCheck'', seqs [str ''=='', Star (Sym Space), str ''null''])])]"

text \<open>\<open>getSeverityForPattern\<close>: \<open>severityMap[patternName] || 'Low'\<close>.\<close>

definition severityMap :: "(string \<times> string) list" where
  "severityMap =
     [(''varUsage'', ''Medium''), (''consoleLog'', ''Low''), (''anyType'', ''Medium''),
      (''tsIgnore'', ''High''), (''execUsage'', ''High''), (''evalUsage'', ''High''),
      (''systemOut'', ''Medium''), (''mutableDefault'', ''Medium'')]"

definition getSeverityForPattern :: "string \<Rightarrow> string" where
  "getSeverityForPattern patternName =
     (case map_of severityMap patternName of Some sev \<Rightarrow> sev | None \<Rightarrow> ''Low'')"

text \<open>The loop over \<open>Object.entries(rules.patterns)\<close>: one issue per pattern that matches.\<close>

definition pattern_issues :: "(string \<times> regex) list \<Rightarrow> string \<Rightarrow> language_issue list" where
  "pattern_issues patterns code =
     concat (map (\<lambda>(patternName, pattern).
                    let n = match_count pattern code
                    in if 0 < n
                       then [\<lparr>l_type = patternName,
                              l_description = ''Detected '' @ patternName @ '' pattern'',
                              l_count = n,
                              l_severity = getSeverityForPattern patternName\<rparr>]
                       else []) patterns)"

text \<open>
  \<open>analyzeLanguageSpecific(code, language)\<close>: the loop runs only \<open>if (languageRules[language])\<close>;
  otherwise the empty list is returned. For an inherited property name the test succeeds
  and \<open>Object.entries(rules.patterns)\<close> throws, \<open>rules.patterns\<close> being undefined.
\<close>

definition analyzeLanguageSpecific :: "string \<Rightarrow> string \<Rightarrow> js_error + language_issue list" where
  "analyzeLanguageSpecific code language =
     (case map_of languageRules language of
        Some patterns \<Rightarrow> Inr (pattern_issues patterns code)
      | None \<Rightarrow> if language \<in> set object_prototype_keys then Inl TypeError else Inr [])"

text \<open>The rules of \<open>checkCustomStyleRules\<close>.\<close>

record style_rule =
  r_name :: string
  r_pattern :: regex
  r_severity :: string
  r_description :: string

definition styleRules :: "(string \<times> style_rule list) list" where
  "styleRules =
     [(''javascript'',
        [\<lparr>r_name = ''no-console'',
          r_pattern = seqs [Bnd, str ''console.'',
                            alts [str ''log'', str ''warn'', str ''error'', str ''info'', str ''debug''],
                            Star (Sym Space), ch (CHR ''('')],
          r_severity = ''Medium'',
          r_description = ''Avoid using console statements in production code''\<rparr>,
         \<lparr>r_name = ''max-line-length'', r_pattern = AtLeast 120 (Sym Dot),
          r_severity = ''Low'', r_description = ''Line length exceeds 120 characters''\<rparr>,
         \<lparr>r_name = ''no-var'', r_pattern = seqs [Bnd, str ''var'', Many1 (Sym Space)],
          r_severity = ''Medium'', r_description = ''Prefer const or let over var''\<rparr>]),
      (''python'',
        [\<lparr>r_name = ''line-length'', r_pattern = AtLeast 80 (Sym Dot),
          r_severity = ''Low'', r_description = ''Line length exceeds 80 characters''\<rparr>,
         \<lparr>r_name = ''no-exec'', r_pattern = seqs [Bnd, str ''exec'', Star (Sym Space), ch (CHR ''('')],
          r_severity = ''High'', r_description = ''Avoid using exec function''\<rparr>]),
      (''java'',
        [\<lparr>r_name = ''system-out'',
          r_pattern = seqs [str ''System.'', Alt (str ''out'') (str ''err''), str ''.print''],
          r_severity = ''Medium'',
          r_description = ''Avoid using System.out.println in production code''\<rparr>])]"

definition style_issues :: "style_rule list \<Rightarrow> string \<Rightarrow> style_issue list" where
  "style_issues selected code =
     concat (map (\<lambda>rule.
                    let n = match_count (r_pattern rule) code
                    in if 0 < n
                       then [\<lparr>s_type = ''Custom'', s_rule = r_name rule,
                              s_description = r_description rule, s_severity = r_severity rule,
                              s_count = n\<rparr>]
                       else []) selected)"

text \<open>
  \<open>checkCustomStyleRules(code, language)\<close>: the rules are \<open>rules[language] ||
  rules.javascript\<close>. For an inherited property name the value has no \<open>forEach\<close>, and
  the call throws.
\<close>

definition checkCustomStyleRules :: "string \<Rightarrow> string \<Rightarrow> js_error + style_issue list" where
  "checkCustomStyleRules code language =
     (case map_of styleRules language of
        Some selected \<Rightarrow> Inr (style_issues selected code)
      | None \<Rightarrow>
          if language \<in> set object_prototype_keys then Inl TypeError
          else Inr (style_issues (the (map_of styleRules ''javascript'')) code))"

section \<open>Team collaboration insights (src/services/testSuggestion.js, the team collaboration module)\<close>

subsection \<open>Data\<close>

text \<open>
  One entry of \<open>commonIssues\<close>: \<open>{type, frequency, percentage}\<close>, and one entry of
  \<open>bestPracticeViolations\<close>: \<open>{type, count, percentage}\<close>.
\<close>

record common_issue =
  ctype :: string
  frequency :: nat
  percentage :: int

record violation =
  vtype :: string
  vcount :: nat
  vpercentage :: int

text \<open>
  A review record: \<open>{author, analysis: {issues: [...]}}\<close>. Of an issue only \<open>type\<close> is
  read, which may be missing; \<open>pr.analysis && pr.analysis.issues\<close> may be missing too.
\<close>

record review_issue =
  rtype :: "string option"

record pull_request =
  author :: string
  pr_issues :: "review_issue list option"

text \<open>
  What \<open>extractDevelopers\<close> keeps per author. \<open>patterns\<close> is a \<open>Set\<close>: the distinct
  types, in the order of their first insertion.
\<close>

record developer =
  name :: string
  prCount :: nat
  dev_issues :: "review_issue list"
  patterns :: "string list"

text \<open>A string-valued field is truthy when it is present and not empty.\<close>

definition truthy :: "string option \<Rightarrow> bool" where
  "truthy t = (case t of Some s \<Rightarrow> s \<noteq> [] | None \<Rightarrow> False)"

definition set_add :: "'a \<Rightarrow> 'a list \<Rightarrow> 'a list" where
  "set_add x xs = (if x \<in> set xs then xs else xs @ [x])"

definition add_patterns :: "review_issue list \<Rightarrow> string list \<Rightarrow> string list" where
  "add_patterns issues ps =
     fold (\<lambda>issue ps. if truthy (rtype issue) then set_add (the (rtype issue)) ps else ps) issues ps"

text \<open>
  One pass of the loop of \<open>extractDevelopers\<close>. The \<open>Map\<close> of developers is the list of
  its values in insertion order.
\<close>

definition extract_pr :: "pull_request \<Rightarrow> developer list \<Rightarrow> developer list" where
  "extract_pr pr developers =
     (let developers1 =
            (if author pr \<in> set (map name developers) then developers
             else developers @ [\<lparr>name = author pr, prCount = 0, dev_issues = [], patterns = []\<rparr>])
      in map (\<lambda>devData.
                if name devData = author pr
                then (let devData1 = devData\<lparr>prCount := prCount devData + 1\<rparr>
                      in case pr_issues pr of
                           Some issues \<Rightarrow>
                             devData1\<lparr>dev_issues := dev_issues devData1 @ issues,
                                      patterns := add_patterns issues (patterns devData1)\<rparr>
                         | None \<Rightarrow> devData1)
                else devData) developers1)"

definition extractDevelopers :: "pull_request list \<Rightarrow> developer list" where
  "extractDevelopers pullRequests = fold extract_pr pullRequests []"

text \<open>
  \<open>m.set(key, (m.get(key) || 0) + 1)\<close> on a \<open>Map\<close>, kept as the list of its entries in
  insertion order.
\<close>

definition bump :: "string \<Rightarrow> (string \<times> nat) list \<Rightarrow> (string \<times> nat) list" where
  "bump key m =
     (if key \<in> set (map fst m) then map (\<lambda>(k, n). if k = key then (k, n + 1) else (k, n)) m
      else m @ [(key, 0 + 1)])"

definition issue_key :: "review_issue \<Rightarrow> string" where
  "issue_key issue = (if truthy (rtype issue) then the (rtype issue) else ''unknown'')"

text \<open>
  The first loop of \<open>findCommonIssues\<close>: for every developer, for every entry of
  \<open>dev.issues\<close>, the counter of the entry's type goes up by one.
\<close>

definition issueFrequency :: "developer list \<Rightarrow> (string \<times> nat) list" where
  "issueFrequency developers =
     fold (\<lambda>dev m. fold (\<lambda>issue m. bump (issue_key issue) m) (dev_issues dev) m) developers []"

text \<open>
  \<open>findCommonIssues(developers)\<close>: the threshold is \<open>Math.ceil(developers.length * 0.3)\<close>;
  the types at or above it are listed with their percentage and sorted by descending
  frequency (\<open>Array.prototype.sort\<close> is stable).
\<close>

definition findCommonIssues :: "developer list \<Rightarrow> common_issue list" where
  "findCommonIssues developers =
     (let threshold = js_ceil (js_mul (of_nat (length developers)) js_0_3);
          commonIssues =
            map (\<lambda>(type, count).
                  \<lparr>ctype = type, frequency = count,
                   percentage = js_round (js_mul (js_div (of_nat count) (of_nat (length developers))) 100)\<rparr>)
              (filter (\<lambda>(type, count). threshold \<le> int count) (issueFrequency developers))
      in sort_key (\<lambda>c. - int (frequency c)) commonIssues)"

text \<open>
  \<open>findBestPracticeViolations(developers)\<close> walks \<open>dev.patterns\<close>, the set of distinct
  types of each developer.
\<close>

definition antiPatterns :: "string list" where
  "antiPatterns = [''varUsage'', ''consoleLog'', ''anyType'', ''tsIgnore'',
                   ''globalUsage'', ''execUsage'', ''evalUsage'', ''systemOut'']"

definition findBestPracticeViolations :: "developer list \<Rightarrow> violation list" where
  "findBestPracticeViolations developers =
     (let violations =
            fold (\<lambda>dev m. fold (\<lambda>pattern m. if pattern \<in> set antiPatterns then bump pattern m else m)
                              (patterns dev) m) developers [];
          violationArray =
            map (\<lambda>(type, count).
                  \<lparr>vtype = type, vcount = count,
                   vpercentage = js_round (js_mul (js_div (of_nat count) (of_nat (length developers))) 100)\<rparr>)
              violations
      in sort_key (\<lambda>v. - int (vcount v)) violationArray)"

text \<open>The number of occurrences of a type in the issue lists of all developers.\<close>

definition occurrences :: "string \<Rightarrow> developer list \<Rightarrow> nat" where
  "occurrences type developers =
     count_list (map issue_key (concat (map dev_issues developers))) type"

text \<open>The number of distinct authors whose issue lists contain a type.\<close>

definition authors_with :: "string \<Rightarrow> pull_request list \<Rightarrow> nat" where
  "authors_with type pullRequests =
     length (remdups (map author
       (filter (\<lambda>pr. case pr_issues pr of
                        Some issues \<Rightarrow> type \<in> set (map issue_key issues)
                      | None \<Rightarrow> False) pullRequests)))"

text \<open>
  Ten authors with one review record each; the type \<open>execUsage\<close> occurs twice in the
  record of \<open>d0\<close> and once in the record of \<open>d1\<close>, and nowhere else.
\<close>

definition ten_developers :: "pull_request list" where
  "ten_developers =
     [\<lparr>author = ''d0'', pr_issues = Some [\<lparr>rtype = Some ''execUsage''\<rparr>, \<lparr>rtype = Some ''execUsage''\<rparr>]\<rparr>,
      \<lparr>author = ''d1'', pr_issues = Some [\<lparr>rtype = Some ''execUsage''\<rparr>]\<rparr>]
     @ map (\<lambda>a. \<lparr>author = a, pr_issues = Some []\<rparr>)
         [''d2'', ''d3'', ''d4'', ''d5'', ''d6'', ''d7'', ''d8'', ''d9'']"

text \<open>
  The insights object built by \<open>analyzeTeamCollaboration\<close>. Its fields \<open>analysisPeriod\<close>
  and \<open>recommendations\<close> play no part below; the storage code is stated for every
  extension of the record.
\<close>

record insights =
  teamId :: string
  developerCount :: nat
  commonIssues :: "common_issue list"
  bestPracticeViolations :: "violation list"

text \<open>
  What \<open>storeTeamInsights\<close> pushes: \<open>{timestamp: new Date().toISOString(), ...insights}\<close>.
  The clock is an input of the model.
\<close>

record 'a history_entry =
  timestamp :: string
  stored :: "'a insights_scheme"

text \<open>\<open>teamInsightsStorage\<close>: a \<open>Map\<close> from team id to the team's history array.\<close>

type_synonym 'a storage = "string \<rightharpoonup> 'a history_entry list"

subsection \<open>storeTeamInsights, getTeamInsightsHistory\<close>

text \<open>\<open>Array.prototype.slice(-k)\<close>: the last \<open>k\<close> elements (all of them when there are fewer).\<close>

definition slice_last :: "nat \<Rightarrow> 'b list \<Rightarrow> 'b list" where
  "slice_last k xs = drop (length xs - k) xs"

text \<open>
  \<open>storeTeamInsights(insights)\<close>: create the team's array when the key is missing, push the
  stamped entry, and when the array has grown beyond 10 entries replace it by its last 10.
\<close>

definition storeTeamInsights :: "string \<Rightarrow> 'a insights_scheme \<Rightarrow> 'a storage \<Rightarrow> 'a storage" where
  "storeTeamInsights now ins st =
     (let tid = teamId ins;
          st1 = (if st tid = None then st(tid \<mapsto> []) else st);
          teamHistory = the (st1 tid) @ [\<lparr>timestamp = now, stored = ins\<rparr>];
          st2 = st1(tid \<mapsto> teamHistory)
      in if length teamHistory > 10 then st2(tid \<mapsto> slice_last 10 teamHistory) else st2)"

text \<open>\<open>getTeamInsightsHistory(teamId)\<close>: \<open>teamInsightsStorage.get(teamId) || []\<close>.\<close>

definition getTeamInsightsHistory :: "'a storage \<Rightarrow> string \<Rightarrow> 'a history_entry list" where
  "getTeamInsightsHistory st tid = (case st tid of None \<Rightarrow> [] | Some h \<Rightarrow> h)"

text \<open>
  The batch handed to \<open>analyzeTeamCollaboration\<close>: \<open>{teamId, pullRequests}\<close> (the optional
  dates only feed \<open>analysisPeriod\<close>).
\<close>

record pr_data =
  pd_teamId :: "string option"
  pullRequests :: "pull_request list"

text \<open>
  \<open>analyzeTeamCollaboration(prData)\<close>: the developers are extracted, the two analyses run on
  them, the insights are stored and returned. The team id is \<open>prData.teamId || 'default'\<close>.
\<close>

definition analyzeTeamCollaboration :: "string \<Rightarrow> pr_data \<Rightarrow> unit storage \<Rightarrow> insights \<times> unit storage" where
  "analyzeTeamCollaboration now prData st =
     (let developers = extractDevelopers (pullRequests prData);
          common = findCommonIssues developers;
          violations = findBestPracticeViolations developers;
          ins = \<lparr>teamId = (if truthy (pd_teamId prData) then the (pd_teamId prData) else ''default''),
                 developerCount = length developers,
                 commonIssues = common,
                 bestPracticeViolations = violations\<rparr>
      in (ins, storeTeamInsights now ins st))"

text \<open>A run of the module: the storage starts empty and receives a sequence of insertions.\<close>

fun store_all :: "(string \<times> 'a insights_scheme) list \<Rightarrow> 'a storage \<Rightarrow> 'a storage" where
  "store_all [] st = st"
| "store_all ((now, ins) # rest) st = store_all rest (storeTeamInsights now ins st)"

text \<open>The entries a sequence of insertions addresses to one team, in insertion order.\<close>

definition entries_for :: "string \<Rightarrow> (string \<times> 'a insights_scheme) list \<Rightarrow> 'a history_entry list" where
  "entries_for tid xs =
     map (\<lambda>(now, ins). \<lparr>timestamp = now, stored = ins\<rparr>) (filter (\<lambda>(now, ins). teamId ins = tid) xs)"

chapter \<open>Properties\<close>

section \<open>JavaScript numbers: properties\<close>

subsection \<open>Rounding is monotone\<close>

lemma rne_of_int [simp]: "rne (of_int n) = n"
  by (simp add: rne_def)

lemma rne_numeral [simp]: "rne (numeral n) = numeral n"
  using rne_of_int [of "numeral n"] by simp












lemma fl_zero [simp]: "fl 0 = 0"
  by (simp add: fl_def)














section \<open>JavaScript strings and regular expressions: properties\<close>


lemma take_drop_Cons_iff:
  "take (Suc n) (drop i s) = c # cs \<longleftrightarrow> i < length s \<and> s ! i = c \<and> take n (drop (Suc i) s) = cs"
proof (cases "i < length s")
  case True
  then have "drop i s = s ! i # drop (Suc i) s" by (simp add: Cons_nth_drop_Suc)
  then show ?thesis using True by simp
next
  case False
  then show ?thesis by simp
qed

lemma ends_str:
  "ends (str kw) s i = (if take (length kw) (drop i s) = kw then [i + length kw] else [])"
proof (induction kw arbitrary: i)
  case Nil
  show ?case by simp
next
  case (Cons c cs)
  show ?case
    by (auto simp: take_drop_Cons_iff Cons.IH simp del: take_Suc_Cons)
qed

lemma occurrence_chars:
  assumes "take (length kw) (drop i s) = kw" "k < length kw"
  shows "i + k < length s" and "s ! (i + k) = kw ! k"
proof -
  have "length kw \<le> length s - i"
    using arg_cong [OF assms(1), of length] by simp
  then show *: "i + k < length s" using assms(2) by simp
  have "kw ! k = take (length kw) (drop i s) ! k" using assms(1) by simp
  also have "\<dots> = s ! (i + k)" using assms(2) * by simp
  finally show "s ! (i + k) = kw ! k" by simp
qed

lemma ends_keyword_regex:
  assumes "kw \<noteq> []" "\<forall>c \<in> set kw. is_word_char c"
  shows "ends (keyword_regex kw) s i = (if whole_word_at kw s i then [i + length kw] else [])"
proof (cases "take (length kw) (drop i s) = kw")
  case False
  then show ?thesis
    by (simp add: keyword_regex_def ends_str whole_word_at_def)
next
  case True
  have len: "0 < length kw" using assms(1) by simp
  have "word_at s i"
    using occurrence_chars [OF True len] assms(2) len by (simp add: word_at_def)
  moreover have "word_before s (i + length kw)"
    using occurrence_chars [OF True, of "length kw - 1"] assms(2) len
    by (simp add: word_before_def word_at_def)
  ultimately show ?thesis
    using True by (auto simp: keyword_regex_def ends_str whole_word_at_def)
qed

lemma no_occurrence_inside:
  assumes "take (length kw) (drop i s) = kw" "\<forall>c \<in> set kw. is_word_char c"
    and "i < j" "j \<le> i + length kw"
  shows "\<not> whole_word_at kw' s j"
proof -
  have "j - 1 - i < length kw" using assms(3,4) by simp
  from occurrence_chars [OF assms(1) this] assms(2,3) nth_mem [OF this]
  have "word_at s (j - 1)" by (simp add: word_at_def)
  then have "word_before s j" using assms(3) by (simp add: word_before_def)
  then show ?thesis by (simp add: whole_word_at_def)
qed

lemma match_all_keyword:
  assumes "kw \<noteq> []" "\<forall>c \<in> set kw. is_word_char c"
  shows "length (match_all (keyword_regex kw) s i) =
         length (filter (whole_word_at kw s) [i..<Suc (length s)])"
proof (induction "keyword_regex kw" s i rule: match_all.induct)
  case (1 s i)
  show ?case
  proof (cases "length s < i")
    case True
    then show ?thesis by (simp add: match_all.simps [of _ s i])
  next
    case in_range: False
    then have upt: "[i..<Suc (length s)] = i # [Suc i..<Suc (length s)]"
      by (simp add: upt_conv_Cons)
    show ?thesis
    proof (cases "whole_word_at kw s i")
      case False
      then have e: "ends (keyword_regex kw) s i = []"
        by (simp add: ends_keyword_regex [OF assms])
      from "1.hyps"(1) [OF in_range e] in_range e False upt show ?thesis
        by (simp add: match_all.simps [of _ s i])
    next
      case True
      then have e: "ends (keyword_regex kw) s i = [i + length kw]"
        by (simp add: ends_keyword_regex [OF assms])
      have len: "0 < length kw" using assms(1) by simp
      have occ: "take (length kw) (drop i s) = kw" using True by (simp add: whole_word_at_def)
      have fits: "i + length kw \<le> length s"
        using occurrence_chars(1) [OF occ, of "length kw - 1"] len by simp
      have a: "Suc i \<le> i + length kw" using len by linarith
      have b: "i + length kw + (Suc (length s) - (i + length kw)) = Suc (length s)"
        using fits by simp
      have split: "[Suc i..<Suc (length s)] = [Suc i..<i + length kw] @ [i + length kw..<Suc (length s)]"
        using upt_add_eq_append [OF a, of "Suc (length s) - (i + length kw)"] unfolding b .
      have none: "filter (whole_word_at kw s) [Suc i..<i + length kw] = []"
        using no_occurrence_inside [OF occ assms(2)] by (auto simp: filter_empty_conv)
      from "1.hyps"(2) [OF in_range e] len
      have "length (match_all (keyword_regex kw) s (i + length kw)) =
            length (filter (whole_word_at kw s) [i + length kw..<Suc (length s)])"
        by simp
      then show ?thesis
        using in_range e True len upt split none by (simp add: match_all.simps [of _ s i])
    qed
  qed
qed

lemma match_count_keyword:
  assumes "kw \<noteq> []" "\<forall>c \<in> set kw. is_word_char c"
  shows "match_count (keyword_regex kw) s = whole_word_occurrences kw s"
  by (simp add: match_count_def whole_word_occurrences_def match_all_keyword [OF assms])

section \<open>Quality scoring: properties\<close>

subsection \<open>The complexity metric counts whole words\<close>

lemma fold_add_sum: "fold (\<lambda>k c. c + f k) ks (a::nat) = a + sum_list (map f ks)"
  by (induction ks arbitrary: a) simp_all

lemma keyword_counts:
  "keyword \<in> set controlFlowKeywords \<Longrightarrow>
   match_count (keyword_regex keyword) code = whole_word_occurrences keyword code"
  by (rule match_count_keyword) (auto simp: controlFlowKeywords_def is_word_char_def)

text \<open>
  C7. For every text the complexity metric is \<open>min ((1 + n) * 10) 100\<close>, where \<open>n\<close> is
  the number of whole-word occurrences of the keywords \<open>if\<close>, \<open>for\<close>, \<open>while\<close>,
  \<open>case\<close> and \<open>catch\<close>, summed over the keywords; for the text
  \<open>function f(){ if(a){} if(b){} }\<close> it is 30.
\<close>

theorem complexity_whole_words:
  "calculateComplexity code =
     min ((1 + (\<Sum>keyword\<leftarrow>controlFlowKeywords. whole_word_occurrences keyword code)) * 10) 100
   \<and> calculateComplexity ''function f(){ if(a){} if(b){} }'' = 30"
proof
  have "map (\<lambda>keyword. match_count (keyword_regex keyword) code) controlFlowKeywords =
        map (\<lambda>keyword. whole_word_occurrences keyword code) controlFlowKeywords"
    by (rule map_cong [OF refl]) (rule keyword_counts)
  then show "calculateComplexity code =
     min ((1 + (\<Sum>keyword\<leftarrow>controlFlowKeywords. whole_word_occurrences keyword code)) * 10) 100"
    by (simp only: calculateComplexity_def fold_add_sum)
  show "calculateComplexity ''function f(){ if(a){} if(b){} }'' = 30"
    by code_simp
qed

text \<open>An instance: three whole-word keywords (\<open>notif\<close> is not one) give 40.\<close>

theorem complexity_whole_words_witness:
  "calculateComplexity ''if (x) { for (;;) {} } else if (y) { notif(); }'' = 40"
proof -
  have "(\<Sum>keyword\<leftarrow>controlFlowKeywords.
          whole_word_occurrences keyword ''if (x) { for (;;) {} } else if (y) { notif(); }'') = 3"
    by code_simp
  with complexity_whole_words [of "''if (x) { for (;;) {} } else if (y) { notif(); }''"]
  show ?thesis by simp
qed

subsection \<open>The empty text\<close>

text \<open>
  C3, as the code has it. The empty string splits into one empty line, so the scorer runs
  to the end without an exception and returns one line of code, complexity 10 (the base
  value), duplication 0, readability 80 (100 less the short-line penalty of 20) and the
  score \<open>round (32 + 3 + 30) = 65\<close>.
\<close>

theorem empty_text_quality:
  "getCodeQualityScore (JStr '''') =
     Inr \<lparr>score = 65,
          metrics = Some \<lparr>linesOfCode = 1, complexity = 10, duplication = 0, readability = 80\<rparr>\<rparr>"
  by code_simp

text \<open>The score of the empty string is not 0.\<close>

theorem empty_text_score_not_zero:
  "result_score (getCodeQualityScore (JStr '''')) \<noteq> Some 0"
  by code_simp

subsection \<open>Ranges\<close>






subsection \<open>The score at a tie\<close>










subsection \<open>The score and the metrics in range\<close>


subsection \<open>Exceptions stay inside\<close>

text \<open>
  C10. Whatever the metric helpers do, and whatever value is passed, the scorer returns a
  result object and no exception; for a string input, when any of the metric computations
  throws, the result is the fallback \<open>{score: 0, metrics: {}}\<close>; and the scorer of the
  module returns a result for every string.
\<close>

theorem quality_scorer_never_throws:
  "(\<exists>r. getCodeQualityScore_with calcC calcD calcR v = Inr r)
   \<and> ((\<exists>e. calcC code = Inl e \<or> calcD code = Inl e \<or> calcR code = Inl e) \<longrightarrow>
        getCodeQualityScore_with calcC calcD calcR (JStr code) = Inr fallback_result)
   \<and> (\<exists>r. getCodeQualityScore (JStr code) = Inr r)"
  by (auto simp: getCodeQualityScore_def getCodeQualityScore_with_def try_catch_def
        quality_body_def Let_def split: sum.splits js_value.splits)

text \<open>
  A duplication helper that throws, and a call without an argument: both give the fallback.
\<close>

theorem quality_scorer_never_throws_witness:
  "getCodeQualityScore_with (\<lambda>code. Inr (calculateComplexity code)) (\<lambda>code. Inl TypeError)
      (\<lambda>code. Inr (calculateReadability code)) (JStr ''if (a) b();'') = Inr fallback_result
   \<and> getCodeQualityScore_with (\<lambda>code. Inr (calculateComplexity code)) (\<lambda>code. Inl TypeError)
      (\<lambda>code. Inr (calculateReadability code)) JUndefined = Inr fallback_result"
proof -
  let ?cC = "\<lambda>code. Inr (calculateComplexity code) :: js_error + nat"
  let ?cD = "\<lambda>code :: string. Inl TypeError :: js_error + int"
  let ?cR = "\<lambda>code. Inr (calculateReadability code) :: js_error + int"
  have "\<exists>e. ?cC ''if (a) b();'' = Inl e \<or> ?cD ''if (a) b();'' = Inl e \<or> ?cR ''if (a) b();'' = Inl e"
    by simp
  with quality_scorer_never_throws [of ?cC ?cD ?cR JUndefined "''if (a) b();''"]
  have "getCodeQualityScore_with ?cC ?cD ?cR (JStr ''if (a) b();'') = Inr fallback_result"
    by blast
  moreover have "getCodeQualityScore_with ?cC ?cD ?cR JUndefined = Inr fallback_result"
    by (simp add: getCodeQualityScore_with_def try_catch_def quality_body_def)
  ultimately show ?thesis by simp
qed

section \<open>Security and dependency scan: properties\<close>

text \<open>
  C9. For every text that contains \<open>.innerHTML\<close>, however often, the scan result holds
  exactly one issue of the XSS category, of severity High, and it is the first entry. The
  other two checks are decided by their own conditions alone: each appends its issue exactly
  when its condition holds, whatever the XSS check did.
\<close>

theorem security_scan_innerHTML:
  assumes "js_includes code ''.innerHTML''"
  shows "filter (\<lambda>i. itype i = ''XSS Vulnerability'') (getSecurityIssues code) = [xss_issue]
    \<and> severity xss_issue = ''High''
    \<and> getSecurityIssues code =
        [xss_issue]
        @ (if js_includes code ''+'' \<and> (js_includes code ''SELECT'' \<or> js_includes code ''INSERT'')
           then [sql_issue] else [])
        @ (if js_includes code ''window.location'' \<or> js_includes code ''redirect(''
           then [redirect_issue] else [])"
  using assms
  by (auto simp: getSecurityIssues_def Let_def xss_issue_def sql_issue_def redirect_issue_def)

text \<open>A text with two \<open>.innerHTML\<close> sinks that also trips the other two checks.\<close>

theorem security_scan_innerHTML_witness:
  "js_includes ''a.innerHTML = q + SELECT; b.innerHTML = window.location;'' ''.innerHTML''
   \<and> getSecurityIssues ''a.innerHTML = q + SELECT; b.innerHTML = window.location;''
       = [xss_issue, sql_issue, redirect_issue]
   \<and> filter (\<lambda>i. itype i = ''XSS Vulnerability'')
         (getSecurityIssues ''a.innerHTML = q + SELECT; b.innerHTML = window.location;'')
       = [xss_issue]"
proof -
  let ?code = "''a.innerHTML = q + SELECT; b.innerHTML = window.location;''"
  have h: "js_includes ?code ''.innerHTML''"
    by code_simp
  have sql: "js_includes ?code ''+'' \<and> (js_includes ?code ''SELECT'' \<or> js_includes ?code ''INSERT'')"
    by code_simp
  have red: "js_includes ?code ''window.location'' \<or> js_includes ?code ''redirect(''"
    by code_simp
  note main = security_scan_innerHTML [OF h]
  have a: "filter (\<lambda>i. itype i = ''XSS Vulnerability'') (getSecurityIssues ?code) = [xss_issue]"
    using main by (rule conjunct1)
  have "getSecurityIssues ?code = [xss_issue, sql_issue, redirect_issue]"
    using main [THEN conjunct2, THEN conjunct2] sql red by simp
  with h a show ?thesis
    by (intro conjI)
qed

section \<open>Report formatting: properties\<close>

subsection \<open>What the summary counts\<close>

lemma report_total_counts:
  "totalIssues (summary (report_of new_id now rd)) =
     length (securityIssues rd) + length (dependencyIssues rd)
     + (case bugs (aiReview rd) of Some bs \<Rightarrow> length bs | None \<Rightarrow> 0)"
  by (simp add: report_of_def createStructuredOutput_def structureCodeReviewOutput_def)

lemma report_partition_total:
  "partition_total (report_of new_id now rd) =
     length (securityIssues rd) + length (dependencyIssues rd)
     + (case bugs (aiReview rd) of Some bs \<Rightarrow> length bs | None \<Rightarrow> 0)
     + (case performance (aiReview rd) of Some ps \<Rightarrow> length ps | None \<Rightarrow> 0)
     + (case refactor (aiReview rd) of Some rs \<Rightarrow> length rs | None \<Rightarrow> 0)"
  by (simp add: report_of_def createStructuredOutput_def structureCodeReviewOutput_def
        partition_total_def retag_def formatIssuesWithSeverity_def split: option.splits)

text \<open>
  C1, evaluated where it fails. An analysis result whose only finding is one High
  performance issue of the AI review: the report lists that issue in its performance
  partition and counts it in \<open>severityBreakdown.high\<close>, but \<open>totalIssues\<close> is 0, because
  \<open>structureCodeReviewOutput\<close> adds up the security, dependency and bug lists only.
\<close>

theorem report_total_misses_ai_partitions:
  "totalIssues (summary (report_of ''review_1'' ''2024-01-01T00:00:00.000Z''
      \<lparr>qualityScore = \<lparr>score = 65, metrics = None\<rparr>,
       securityIssues = [], dependencyIssues = [],
       aiReview = \<lparr>bugs = Some [],
         performance = Some [\<lparr>itype = ''loop'', description = ''nested loop'',
                               severity = ''High'', suggestion = ''use a map''\<rparr>],
         refactor = Some []\<rparr>\<rparr>)) = 0
   \<and> partition_total (report_of ''review_1'' ''2024-01-01T00:00:00.000Z''
      \<lparr>qualityScore = \<lparr>score = 65, metrics = None\<rparr>,
       securityIssues = [], dependencyIssues = [],
       aiReview = \<lparr>bugs = Some [],
         performance = Some [\<lparr>itype = ''loop'', description = ''nested loop'',
                               severity = ''High'', suggestion = ''use a map''\<rparr>],
         refactor = Some []\<rparr>\<rparr>) = 1
   \<and> breakdown_total (report_of ''review_1'' ''2024-01-01T00:00:00.000Z''
      \<lparr>qualityScore = \<lparr>score = 65, metrics = None\<rparr>,
       securityIssues = [], dependencyIssues = [],
       aiReview = \<lparr>bugs = Some [],
         performance = Some [\<lparr>itype = ''loop'', description = ''nested loop'',
                               severity = ''High'', suggestion = ''use a map''\<rparr>],
         refactor = Some []\<rparr>\<rparr>) = 1"
  by (simp add: report_of_def createStructuredOutput_def structureCodeReviewOutput_def
        partition_total_def breakdown_total_def countIssuesBySeverity_def retag_def
        formatIssuesWithSeverity_def)

section \<open>Performance estimate: properties\<close>

lemma js_round_0: "js_round 0 = 0"
  by code_simp

lemma gain_nonneg: "0 \<le> calculatePerformanceGain original optimized"
  by (simp add: calculatePerformanceGain_def Let_def)

lemma gain_same: "calculatePerformanceGain m m = 0"
  by (simp add: calculatePerformanceGain_def Let_def js_sub_def js_div_def js_mul_def js_round_0)

text \<open>
  C5. For every pair of texts the estimated gain is at least 0; it is 0 whenever the
  complexity score of the first text is 0; and it is 0 when both texts are the same string.
\<close>

theorem performance_gain:
  "0 \<le> estimatedPerformanceGain (estimatePerformanceImpact beforeText afterText)
   \<and> (complexityScore (before (estimatePerformanceImpact beforeText afterText)) = 0 \<longrightarrow>
        estimatedPerformanceGain (estimatePerformanceImpact beforeText afterText) = 0)
   \<and> estimatedPerformanceGain (estimatePerformanceImpact beforeText beforeText) = 0"
  by (simp add: estimatePerformanceImpact_def Let_def gain_nonneg gain_same)
    (simp add: calculatePerformanceGain_def)

text \<open>
  A first text without loops, calls, braces or brackets has score 0, and the gain against a
  text with a call is 0; a loop compared with itself has gain 0.
\<close>

theorem performance_gain_witness:
  "complexityScore (before (estimatePerformanceImpact ''x = 1;'' ''f(x);'')) = 0
   \<and> estimatedPerformanceGain (estimatePerformanceImpact ''x = 1;'' ''f(x);'') = 0
   \<and> estimatedPerformanceGain (estimatePerformanceImpact
         ''for (i = 0; i < n; i++) { a[i] = f(i); }''
         ''for (i = 0; i < n; i++) { a[i] = f(i); }'') = 0"
proof -
  have zero: "complexityScore (before (estimatePerformanceImpact ''x = 1;'' ''f(x);'')) = 0"
    by code_simp
  from performance_gain [of "''x = 1;''" "''f(x);''"] zero
  have "estimatedPerformanceGain (estimatePerformanceImpact ''x = 1;'' ''f(x);'') = 0"
    by blast
  moreover have "estimatedPerformanceGain (estimatePerformanceImpact
         ''for (i = 0; i < n; i++) { a[i] = f(i); }''
         ''for (i = 0; i < n; i++) { a[i] = f(i); }'') = 0"
    using performance_gain [of "''for (i = 0; i < n; i++) { a[i] = f(i); }''" "''x''"] by blast
  ultimately show ?thesis
    using zero by simp
qed

text \<open>The profile of the loop: one loop, two calls, depth 1, one array and one object.\<close>

lemma loop_profile:
  "analyzeCodeForPerformance ''for (i = 0; i < n; i++) { a[i] = f(i); }'' =
     \<lparr>loopComplexity = 1, functionCalls = 2, nestedDepth = 1, memoryUsage = 25,
      complexityScore = 83 / 2\<rparr>"
  by code_simp

section \<open>Language patterns and style rules: properties\<close>

text \<open>
  C8, where it fails. On a text in which every one of the four catalogs finds a pattern, the
  analyzer called with the language \<open>ruby\<close>, which has no catalog entry, returns no issue
  at all: no catalog is used as a default.
\<close>

theorem unknown_language_no_default:
  "analyzeLanguageSpecific ''var x: any = eval(y); System.out.println(x);'' ''ruby'' = Inr []
   \<and> analyzeLanguageSpecific ''var x: any = eval(y); System.out.println(x);'' ''javascript'' \<noteq> Inr []
   \<and> analyzeLanguageSpecific ''var x: any = eval(y); System.out.println(x);'' ''typescript'' \<noteq> Inr []
   \<and> analyzeLanguageSpecific ''var x: any = eval(y); System.out.println(x);'' ''python'' \<noteq> Inr []
   \<and> analyzeLanguageSpecific ''var x: any = eval(y); System.out.println(x);'' ''java'' \<noteq> Inr []"
  by code_simp

text \<open>
  C8, as the code has it. For a language that is none of the four keys of the catalog of
  \<open>analyzeLanguageSpecific\<close>, the analyzer applies no rule and returns the empty list,
  whatever the text. The style checker is the one with a default: for a language that is
  none of the three keys of its rule table (so for \<open>typescript\<close> too) it applies the
  \<open>javascript\<close> rules. Names of properties that every object inherits are left aside.
\<close>

theorem unknown_language_behaviour:
  "(language \<notin> set [''javascript'', ''typescript'', ''python'', ''java'']
      \<and> language \<notin> set object_prototype_keys \<longrightarrow>
    analyzeLanguageSpecific code language = Inr [])
   \<and> (language \<notin> set [''javascript'', ''python'', ''java'']
      \<and> language \<notin> set object_prototype_keys \<longrightarrow>
    checkCustomStyleRules code language = checkCustomStyleRules code ''javascript'')"
  by (simp add: analyzeLanguageSpecific_def checkCustomStyleRules_def languageRules_def
        styleRules_def)

text \<open>
  The language \<open>ruby\<close> for the analyzer, and the languages \<open>ruby\<close> and \<open>typescript\<close>
  for the style checker, on a text with a \<open>var\<close> declaration.
\<close>

theorem unknown_language_behaviour_witness:
  "analyzeLanguageSpecific ''var x = 1;'' ''ruby'' = Inr []
   \<and> checkCustomStyleRules ''var x = 1;'' ''ruby'' =
       Inr [\<lparr>s_type = ''Custom'', s_rule = ''no-var'',
              s_description = ''Prefer const or let over var'', s_severity = ''Medium'',
              s_count = 1\<rparr>]
   \<and> checkCustomStyleRules ''var x = 1;'' ''typescript'' =
       Inr [\<lparr>s_type = ''Custom'', s_rule = ''no-var'',
              s_description = ''Prefer const or let over var'', s_severity = ''Medium'',
              s_count = 1\<rparr>]"
proof -
  have a: "''ruby'' \<notin> set [''javascript'', ''typescript'', ''python'', ''java'']
      \<and> ''ruby'' \<notin> set object_prototype_keys"
    by (simp add: object_prototype_keys_def)
  have b: "''ruby'' \<notin> set [''javascript'', ''python'', ''java'']
      \<and> ''ruby'' \<notin> set object_prototype_keys"
    by (simp add: object_prototype_keys_def)
  have c: "''typescript'' \<notin> set [''javascript'', ''python'', ''java'']
      \<and> ''typescript'' \<notin> set object_prototype_keys"
    by (simp add: object_prototype_keys_def)
  have js: "checkCustomStyleRules ''var x = 1;'' ''javascript'' =
       Inr [\<lparr>s_type = ''Custom'', s_rule = ''no-var'',
              s_description = ''Prefer const or let over var'', s_severity = ''Medium'',
              s_count = 1\<rparr>]"
    by code_simp
  have "analyzeLanguageSpecific ''var x = 1;'' ''ruby'' = Inr []"
    using unknown_language_behaviour [of "''ruby''" "''var x = 1;''"] a by blast
  moreover have "checkCustomStyleRules ''var x = 1;'' ''ruby'' =
      checkCustomStyleRules ''var x = 1;'' ''javascript''"
    using unknown_language_behaviour [of "''ruby''" "''var x = 1;''"] b by blast
  moreover have "checkCustomStyleRules ''var x = 1;'' ''typescript'' =
      checkCustomStyleRules ''var x = 1;'' ''javascript''"
    using unknown_language_behaviour [of "''typescript''" "''var x = 1;''"] c by blast
  ultimately show ?thesis
    using js by simp
qed

section \<open>Team collaboration insights: properties\<close>

subsection \<open>Frequencies\<close>

text \<open>
  What \<open>issueFrequency\<close> records for a type is the number of its occurrences in the issue
  lists of all developers; a type that does not occur has no entry.
\<close>

lemma fold_nested:
  "fold (\<lambda>dev m. fold f (g dev) m) devs m = fold f (concat (map g devs)) m"
  by (induction devs arbitrary: m) simp_all

lemma map_of_bump:
  "map_of (bump k m) k' =
     (if k' = k then Some (case map_of m k of None \<Rightarrow> 1 | Some n \<Rightarrow> n + 1) else map_of m k')"
proof (cases "k \<in> set (map fst m)")
  case False
  then have "map_of m k = None" by (simp add: map_of_eq_None_iff)
  with False show ?thesis by (auto simp: bump_def map_add_def split: option.splits)
next
  case True
  have "map_of (map (\<lambda>(j, n). if j = k then (j, n + 1) else (j, n)) m) k' =
        (if k' = k then map_option (\<lambda>n. n + 1) (map_of m k) else map_of m k')"
    by (induction m) auto
  moreover obtain n where "map_of m k = Some n"
    using True by (metis map_of_eq_None_iff not_None_eq set_map)
  ultimately show ?thesis using True by (simp add: bump_def)
qed

lemma map_of_fold_bump:
  "map_of (fold bump ks m) k =
     (case map_of m k of
        None \<Rightarrow> if count_list ks k = 0 then None else Some (count_list ks k)
      | Some n \<Rightarrow> Some (n + count_list ks k))"
  by (induction ks arbitrary: m) (auto simp: map_of_bump split: option.splits)

lemma issueFrequency_occurrences:
  "map_of (issueFrequency developers) type =
     (if occurrences type developers = 0 then None else Some (occurrences type developers))"
proof -
  have "issueFrequency developers =
        fold bump (map issue_key (concat (map dev_issues developers))) []"
    unfolding issueFrequency_def fold_nested by (simp add: fold_map comp_def)
  then show ?thesis
    by (simp add: map_of_fold_bump occurrences_def)
qed

text \<open>
  \<open>commonIssues\<close> holds exactly the entries of \<open>issueFrequency\<close> at or above the
  threshold, in descending order of frequency.
\<close>

lemma findCommonIssues_selects:
  "set (map (\<lambda>c. (ctype c, frequency c)) (findCommonIssues developers)) =
     {(t, n). (t, n) \<in> set (issueFrequency developers)
              \<and> js_ceil (js_mul (of_nat (length developers)) js_0_3) \<le> int n}"
  by (auto simp: findCommonIssues_def Let_def image_iff split: prod.splits)

lemma findCommonIssues_sorted:
  "sorted (map (\<lambda>c. - int (frequency c)) (findCommonIssues developers))"
  by (simp add: findCommonIssues_def Let_def)

text \<open>
  C2, evaluated where it fails. With ten developers the threshold is 3. The type
  \<open>execUsage\<close> is in the issue lists of two distinct authors, yet its recorded frequency is
  3, the number of its occurrences, and it is listed as a common issue. The sibling
  \<open>findBestPracticeViolations\<close> counts the same type once per author, 2.
\<close>

theorem common_issue_frequency_counts_occurrences:
  "length (extractDevelopers ten_developers) = 10
   \<and> js_ceil (js_mul 10 js_0_3) = 3
   \<and> authors_with ''execUsage'' ten_developers = 2
   \<and> issueFrequency (extractDevelopers ten_developers) = [(''execUsage'', 3)]
   \<and> findCommonIssues (extractDevelopers ten_developers) =
       [\<lparr>ctype = ''execUsage'', frequency = 3, percentage = 30\<rparr>]
   \<and> findBestPracticeViolations (extractDevelopers ten_developers) =
       [\<lparr>vtype = ''execUsage'', vcount = 2, vpercentage = 20\<rparr>]
   \<and> fst (analyzeTeamCollaboration ''2024-01-01T00:00:00.000Z''
          \<lparr>pd_teamId = Some ''team-a'', pullRequests = ten_developers\<rparr> Map.empty) =
       \<lparr>teamId = ''team-a'', developerCount = 10,
        commonIssues = [\<lparr>ctype = ''execUsage'', frequency = 3, percentage = 30\<rparr>],
        bestPracticeViolations = [\<lparr>vtype = ''execUsage'', vcount = 2, vpercentage = 20\<rparr>]\<rparr>"
  by code_simp

subsection \<open>The bounded history\<close>

lemma slice_last_short: "length xs \<le> k \<Longrightarrow> slice_last k xs = xs"
  by (simp add: slice_last_def)

lemma slice_last_length: "length (slice_last k xs) = min k (length xs)"
  by (simp add: slice_last_def)

lemma slice_last_snoc: "slice_last k (slice_last k xs @ [x]) = slice_last k (xs @ [x])"
  by (cases "length xs \<le> k") (auto simp: slice_last_def Suc_diff_le)

lemma history_store_same:
  "teamId ins = tid \<Longrightarrow>
   getTeamInsightsHistory (storeTeamInsights now ins st) tid =
     slice_last 10 (getTeamInsightsHistory st tid @ [\<lparr>timestamp = now, stored = ins\<rparr>])"
  by (auto simp: storeTeamInsights_def getTeamInsightsHistory_def Let_def slice_last_def
           split: option.splits)

lemma history_store_other:
  "teamId ins \<noteq> tid \<Longrightarrow>
   getTeamInsightsHistory (storeTeamInsights now ins st) tid = getTeamInsightsHistory st tid"
  by (auto simp: storeTeamInsights_def getTeamInsightsHistory_def Let_def split: option.splits)

lemma history_store_all:
  "getTeamInsightsHistory st tid = slice_last 10 h \<Longrightarrow>
   getTeamInsightsHistory (store_all xs st) tid = slice_last 10 (h @ entries_for tid xs)"
proof (induction xs arbitrary: st h)
  case Nil
  then show ?case by (simp add: entries_for_def)
next
  case (Cons x xs)
  obtain now ins where x: "x = (now, ins)" by (cases x)
  show ?case
  proof (cases "teamId ins = tid")
    case True
    let ?e = "\<lparr>timestamp = now, stored = ins\<rparr>"
    have "getTeamInsightsHistory (storeTeamInsights now ins st) tid = slice_last 10 (h @ [?e])"
      using True Cons.prems by (simp add: history_store_same slice_last_snoc)
    from Cons.IH [OF this] show ?thesis
      using True by (simp add: x entries_for_def)
  next
    case False
    have "getTeamInsightsHistory (storeTeamInsights now ins st) tid = slice_last 10 h"
      using False Cons.prems by (simp add: history_store_other)
    from Cons.IH [OF this] show ?thesis
      using False by (simp add: x entries_for_def)
  qed
qed

text \<open>
  C4. After any sequence of insertions into the initially empty storage, and for every team
  id, the stored history has at most 10 entries and is exactly the last 10 of the entries
  inserted for that team, in insertion order: whenever an insertion takes a history beyond 10
  it is the oldest entry that goes, and the others keep their relative order. The last
  conjunct is the single step at the cap: inserting into a full history of 10 yields the old
  history without its head, followed by the new entry.
\<close>

theorem team_history_bounded_fifo:
  "length (getTeamInsightsHistory (store_all xs Map.empty) tid) \<le> 10
   \<and> getTeamInsightsHistory (store_all xs Map.empty) tid = slice_last 10 (entries_for tid xs)
   \<and> (length (getTeamInsightsHistory st (teamId ins)) = 10 \<longrightarrow>
        getTeamInsightsHistory (storeTeamInsights now ins st) (teamId ins) =
          tl (getTeamInsightsHistory st (teamId ins)) @ [\<lparr>timestamp = now, stored = ins\<rparr>])"
proof -
  have "getTeamInsightsHistory Map.empty tid = slice_last 10 []"
    by (simp add: getTeamInsightsHistory_def slice_last_def)
  from history_store_all [OF this]
  have eq: "getTeamInsightsHistory (store_all xs Map.empty) tid = slice_last 10 (entries_for tid xs)"
    by simp
  have step: "getTeamInsightsHistory (storeTeamInsights now ins st) (teamId ins) =
          tl (getTeamInsightsHistory st (teamId ins)) @ [\<lparr>timestamp = now, stored = ins\<rparr>]"
    if "length (getTeamInsightsHistory st (teamId ins)) = 10"
  proof -
    from that have "getTeamInsightsHistory st (teamId ins) \<noteq> []"
      by auto
    then obtain y ys where h: "getTeamInsightsHistory st (teamId ins) = y # ys"
      by (cases "getTeamInsightsHistory st (teamId ins)") auto
    with that have "length ys = 9"
      by simp
    with h show ?thesis
      by (simp add: history_store_same slice_last_def)
  qed
  show ?thesis
    using eq step by (simp add: slice_last_length)
qed

text \<open>
  The theorem at a concrete run: eleven insertions for one team leave the ten most recent,
  and a twelfth insertion into that full history drops its head.
\<close>

theorem team_history_bounded_fifo_witness:
  "length (getTeamInsightsHistory (store_all
      (map (\<lambda>ts. (ts, \<lparr>teamId = ''team-a'', developerCount = 0, commonIssues = [],
                            bestPracticeViolations = []\<rparr>))
         [''t00'', ''t01'', ''t02'', ''t03'', ''t04'', ''t05'', ''t06'', ''t07'', ''t08'', ''t09'', ''t10''])
      Map.empty) ''team-a'') = 10
   \<and> map timestamp (getTeamInsightsHistory (store_all
      (map (\<lambda>ts. (ts, \<lparr>teamId = ''team-a'', developerCount = 0, commonIssues = [],
                            bestPracticeViolations = []\<rparr>))
         [''t00'', ''t01'', ''t02'', ''t03'', ''t04'', ''t05'', ''t06'', ''t07'', ''t08'', ''t09'', ''t10''])
      Map.empty) ''team-a'')
     = [''t01'', ''t02'', ''t03'', ''t04'', ''t05'', ''t06'', ''t07'', ''t08'', ''t09'', ''t10'']
   \<and> map timestamp (getTeamInsightsHistory (storeTeamInsights ''t11''
        \<lparr>teamId = ''team-a'', developerCount = 0, commonIssues = [], bestPracticeViolations = []\<rparr>
        (store_all
          (map (\<lambda>ts. (ts, \<lparr>teamId = ''team-a'', developerCount = 0, commonIssues = [],
                            bestPracticeViolations = []\<rparr>))
            [''t00'', ''t01'', ''t02'', ''t03'', ''t04'', ''t05'', ''t06'', ''t07'', ''t08'', ''t09'', ''t10''])
          Map.empty)) ''team-a'')
     = [''t02'', ''t03'', ''t04'', ''t05'', ''t06'', ''t07'', ''t08'', ''t09'', ''t10'', ''t11'']"
proof -
  let ?d = "\<lparr>teamId = ''team-a'', developerCount = 0, commonIssues = [],
              bestPracticeViolations = []\<rparr>"
  let ?xs = "map (\<lambda>ts. (ts, ?d))
         [''t00'', ''t01'', ''t02'', ''t03'', ''t04'', ''t05'', ''t06'', ''t07'', ''t08'', ''t09'', ''t10'']"
  let ?st = "store_all ?xs Map.empty"
  have eq: "getTeamInsightsHistory ?st ''team-a'' = slice_last 10 (entries_for ''team-a'' ?xs)"
    using team_history_bounded_fifo [of ?xs "''team-a''"] by blast
  have h: "map timestamp (getTeamInsightsHistory ?st ''team-a'')
      = [''t01'', ''t02'', ''t03'', ''t04'', ''t05'', ''t06'', ''t07'', ''t08'', ''t09'', ''t10'']"
    unfolding eq by (simp add: entries_for_def slice_last_def)
  have len: "length (getTeamInsightsHistory ?st (teamId ?d)) = 10"
    using arg_cong [OF h, of length] by simp
  have "getTeamInsightsHistory (storeTeamInsights ''t11'' ?d ?st) (teamId ?d) =
          tl (getTeamInsightsHistory ?st (teamId ?d)) @ [\<lparr>timestamp = ''t11'', stored = ?d\<rparr>]"
    using team_history_bounded_fifo [of "[]" "''team-a''" ?st ?d "''t11''"] len by blast
  then have "map timestamp (getTeamInsightsHistory (storeTeamInsights ''t11'' ?d ?st) ''team-a'')
      = tl (map timestamp (getTeamInsightsHistory ?st ''team-a'')) @ [''t11'']"
    by (simp add: map_tl)
  with h len show ?thesis
    by simp
qed

end
